theory Spec2Isabelle
  imports Complex_Main
begin

section \<open>The Frigidaire climate entity\<close>

text \<open>
  A shallow embedding of \<^verbatim>\<open>custom_components/frigidaire/climate.py\<close>: the translation
  tables, the read accessors, the three commands and the poll of class
  \<^verbatim>\<open>FrigidaireClimate\<close>. Python exceptions are values of type \<open>error\<close>; a method is a
  function from the entity to an outcome and the entity afterwards, so that whatever was
  done before an exception stays done.
\<close>

subsection \<open>Vocabulary of the remote API\<close>

text \<open>
  The enumerations of the \<^verbatim>\<open>frigidaire\<close> package, with the members the source names.
  Constructors are written qualified (\<open>Mode.OFF\<close>, \<open>Power.OFF\<close>), as the source does.
\<close>

datatype Unit = FAHRENHEIT | CELSIUS

datatype Mode = OFF | COOL | FAN | ECO

datatype FanSpeed = AUTO | LOW | MEDIUM | HIGH

datatype Power = ON | OFF

datatype Detail =
    TEMPERATURE_REPRESENTATION
  | TARGET_TEMPERATURE_F
  | TARGET_TEMPERATURE_C
  | AMBIENT_TEMPERATURE_F
  | AMBIENT_TEMPERATURE_C
  | MODE
  | FAN_SPEED
  | FILTER_STATE

text \<open>
  The details dictionary is the payload of the remote service: its keys are strings
  (\<^verbatim>\<open>update\<close> reads the key \<^verbatim>\<open>"connectivityState"\<close>) and its values are strings (the
  source compares them with \<^verbatim>\<open>"CHANGE"\<close> and \<^verbatim>\<open>"connected"\<close>), numbers or nothing at all;
  \<open>PNone\<close> is Python's \<^verbatim>\<open>None\<close>. The source reads that same dictionary with members of
  \<^verbatim>\<open>Detail\<close> as keys and looks its values up in tables keyed by members of \<^verbatim>\<open>Unit\<close>,
  \<^verbatim>\<open>Mode\<close> and \<^verbatim>\<open>FanSpeed\<close>: a member of these enumerations is a string, the member's
  value, and compares and hashes as that string. So there is no separate kind of value
  or key for a member.
\<close>

datatype PyVal =
    PNone
  | PInt int
  | PStr string

type_synonym Details = "string \<rightharpoonup> PyVal"

text \<open>
  Which string each member is belongs to the \<^verbatim>\<open>frigidaire\<close> package and not to the source,
  so it is a parameter of the model: a \<open>Library\<close> gives every member its value, and two
  members of one enumeration never have the same value (members with one value would be
  one member). \<open>example_values\<close> is one such assignment; it shows that the type is
  inhabited and serves in the examples.
\<close>

record Values =
  unit_values :: "Unit \<Rightarrow> string"
  mode_values :: "Mode \<Rightarrow> string"
  fan_speed_values :: "FanSpeed \<Rightarrow> string"
  detail_values :: "Detail \<Rightarrow> string"

fun example_unit :: "Unit \<Rightarrow> string" where
  "example_unit Unit.FAHRENHEIT = ''FAHRENHEIT''"
| "example_unit Unit.CELSIUS = ''CELSIUS''"

fun example_mode :: "Mode \<Rightarrow> string" where
  "example_mode Mode.OFF = ''OFF''"
| "example_mode Mode.COOL = ''COOL''"
| "example_mode Mode.FAN = ''FANONLY''"
| "example_mode Mode.ECO = ''ECO''"

fun example_fan_speed :: "FanSpeed \<Rightarrow> string" where
  "example_fan_speed FanSpeed.AUTO = ''AUTO''"
| "example_fan_speed FanSpeed.LOW = ''LOW''"
| "example_fan_speed FanSpeed.MEDIUM = ''MIDDLE''"
| "example_fan_speed FanSpeed.HIGH = ''HIGH''"

fun example_detail :: "Detail \<Rightarrow> string" where
  "example_detail Detail.TEMPERATURE_REPRESENTATION = ''temperatureRepresentation''"
| "example_detail Detail.TARGET_TEMPERATURE_F = ''targetTemperatureF''"
| "example_detail Detail.TARGET_TEMPERATURE_C = ''targetTemperatureC''"
| "example_detail Detail.AMBIENT_TEMPERATURE_F = ''ambientTemperatureF''"
| "example_detail Detail.AMBIENT_TEMPERATURE_C = ''ambientTemperatureC''"
| "example_detail Detail.MODE = ''mode''"
| "example_detail Detail.FAN_SPEED = ''fanSpeedSetting''"
| "example_detail Detail.FILTER_STATE = ''filterState''"

definition example_values :: Values where
  "example_values =
     \<lparr>unit_values = example_unit, mode_values = example_mode,
      fan_speed_values = example_fan_speed, detail_values = example_detail\<rparr>"

definition well_formed :: "Values \<Rightarrow> bool" where
  "well_formed v =
     (distinct (map (unit_values v) [Unit.FAHRENHEIT, Unit.CELSIUS]) \<and>
      distinct (map (mode_values v) [Mode.OFF, Mode.COOL, Mode.FAN, Mode.ECO]) \<and>
      distinct (map (fan_speed_values v)
        [FanSpeed.AUTO, FanSpeed.LOW, FanSpeed.MEDIUM, FanSpeed.HIGH]) \<and>
      distinct (map (detail_values v)
        [Detail.TEMPERATURE_REPRESENTATION, Detail.TARGET_TEMPERATURE_F,
         Detail.TARGET_TEMPERATURE_C, Detail.AMBIENT_TEMPERATURE_F,
         Detail.AMBIENT_TEMPERATURE_C, Detail.MODE, Detail.FAN_SPEED, Detail.FILTER_STATE]))"

typedef Library = "{v. well_formed v}"
  by (rule exI [of _ example_values]) (simp add: well_formed_def example_values_def)

definition unit_value :: "Library \<Rightarrow> Unit \<Rightarrow> string" where
  "unit_value lib = unit_values (Rep_Library lib)"

definition mode_value :: "Library \<Rightarrow> Mode \<Rightarrow> string" where
  "mode_value lib = mode_values (Rep_Library lib)"

definition fan_speed_value :: "Library \<Rightarrow> FanSpeed \<Rightarrow> string" where
  "fan_speed_value lib = fan_speed_values (Rep_Library lib)"

definition detail_value :: "Library \<Rightarrow> Detail \<Rightarrow> string" where
  "detail_value lib = detail_values (Rep_Library lib)"

definition example_library :: Library where
  "example_library = Abs_Library example_values"

text \<open>
  The actions of \<^verbatim>\<open>frigidaire.Action\<close>, kept symbolic: each constructor stands for the
  action the class method of that name builds from its argument.
\<close>

datatype Action =
    set_power Power
  | set_temperature PyVal
  | set_temperature_f int
  | set_temperature_c int
  | set_fan_speed FanSpeed
  | set_mode Mode

datatype error = KeyError | AttributeError | FrigidaireException | OtherException

subsection \<open>Vocabulary of the host platform\<close>

text \<open>
  Modelled from the spec: the constants that \<^verbatim>\<open>climate.py\<close> imports from the host
  platform (\<^verbatim>\<open>homeassistant.components.climate.const\<close> and \<^verbatim>\<open>homeassistant.const\<close>) are
  not part of the source. The mode and fan tokens are the strings the spec lists:
  hvac modes off, cool, auto, fan_only; fan modes auto, low, medium, high; and the "off"
  sentinel for an absent fan speed.
\<close>

definition HVAC_MODE_OFF :: string where "HVAC_MODE_OFF = ''off''"
definition HVAC_MODE_COOL :: string where "HVAC_MODE_COOL = ''cool''"
definition HVAC_MODE_AUTO :: string where "HVAC_MODE_AUTO = ''auto''"
definition HVAC_MODE_FAN_ONLY :: string where "HVAC_MODE_FAN_ONLY = ''fan_only''"

definition FAN_AUTO :: string where "FAN_AUTO = ''auto''"
definition FAN_LOW :: string where "FAN_LOW = ''low''"
definition FAN_MEDIUM :: string where "FAN_MEDIUM = ''medium''"
definition FAN_HIGH :: string where "FAN_HIGH = ''high''"
definition FAN_OFF :: string where "FAN_OFF = ''off''"

text \<open>
  Modelled from the spec: the two platform temperature units, \<^verbatim>\<open>TEMP_FAHRENHEIT\<close> and
  \<^verbatim>\<open>TEMP_CELSIUS\<close> of \<^verbatim>\<open>homeassistant.const\<close>, are two distinct tokens; the source only
  compares them for equality.
\<close>

datatype TempUnit = TEMP_FAHRENHEIT | TEMP_CELSIUS

text \<open>
  Modelled from the spec: \<^verbatim>\<open>ATTR_TEMPERATURE\<close> of \<^verbatim>\<open>homeassistant.const\<close>, the keyword
  under which the host passes the temperature to \<^verbatim>\<open>set_temperature\<close>.
\<close>

definition ATTR_TEMPERATURE :: string where "ATTR_TEMPERATURE = ''temperature''"

subsection \<open>Translation tables\<close>

text \<open>
  The three tables from the remote vocabulary are dictionaries keyed by enumeration
  members, that is by the members' strings; they are looked up with whatever value the
  details dictionary holds, so their key type is \<open>PyVal\<close>. They depend on the library
  for the members' values.
\<close>

definition FRIGIDAIRE_TO_HA_UNIT :: "Library \<Rightarrow> PyVal \<rightharpoonup> TempUnit" where
  "FRIGIDAIRE_TO_HA_UNIT lib =
     [PStr (unit_value lib Unit.FAHRENHEIT) \<mapsto> TEMP_FAHRENHEIT,
      PStr (unit_value lib Unit.CELSIUS) \<mapsto> TEMP_CELSIUS]"

definition FRIGIDAIRE_TO_HA_MODE :: "Library \<Rightarrow> PyVal \<rightharpoonup> string" where
  "FRIGIDAIRE_TO_HA_MODE lib =
     [PStr (mode_value lib Mode.OFF) \<mapsto> HVAC_MODE_OFF,
      PStr (mode_value lib Mode.COOL) \<mapsto> HVAC_MODE_COOL,
      PStr (mode_value lib Mode.FAN) \<mapsto> HVAC_MODE_FAN_ONLY,
      PStr (mode_value lib Mode.ECO) \<mapsto> HVAC_MODE_AUTO]"

definition FRIGIDAIRE_TO_HA_FAN_SPEED :: "Library \<Rightarrow> PyVal \<rightharpoonup> string" where
  "FRIGIDAIRE_TO_HA_FAN_SPEED lib =
     [PStr (fan_speed_value lib FanSpeed.AUTO) \<mapsto> FAN_AUTO,
      PStr (fan_speed_value lib FanSpeed.LOW) \<mapsto> FAN_LOW,
      PStr (fan_speed_value lib FanSpeed.MEDIUM) \<mapsto> FAN_MEDIUM,
      PStr (fan_speed_value lib FanSpeed.HIGH) \<mapsto> FAN_HIGH]"

definition HA_TO_FRIGIDAIRE_FAN_MODE :: "string \<rightharpoonup> FanSpeed" where
  "HA_TO_FRIGIDAIRE_FAN_MODE =
     [FAN_AUTO \<mapsto> FanSpeed.AUTO,
      FAN_LOW \<mapsto> FanSpeed.LOW,
      FAN_MEDIUM \<mapsto> FanSpeed.MEDIUM,
      FAN_HIGH \<mapsto> FanSpeed.HIGH]"

definition HA_TO_FRIGIDAIRE_HVAC_MODE :: "string \<rightharpoonup> Mode" where
  "HA_TO_FRIGIDAIRE_HVAC_MODE =
     [HVAC_MODE_AUTO \<mapsto> Mode.ECO,
      HVAC_MODE_FAN_ONLY \<mapsto> Mode.FAN,
      HVAC_MODE_COOL \<mapsto> Mode.COOL,
      HVAC_MODE_OFF \<mapsto> Mode.OFF]"

text \<open>\<^verbatim>\<open>table[key]\<close>: a missing key raises \<^verbatim>\<open>KeyError\<close>.\<close>

definition subscript :: "('k \<rightharpoonup> 'v) \<Rightarrow> 'k \<Rightarrow> error + 'v" where
  "subscript table k = (case table k of None \<Rightarrow> Inl KeyError | Some v \<Rightarrow> Inr v)"

text \<open>\<^verbatim>\<open>d.get(key)\<close>: a missing key gives \<^verbatim>\<open>None\<close>.\<close>

definition dict_get :: "Details \<Rightarrow> string \<Rightarrow> PyVal" where
  "dict_get d k = (case d k of None \<Rightarrow> PNone | Some v \<Rightarrow> v)"

text \<open>Python's truth value of a stored value.\<close>

fun truthy :: "PyVal \<Rightarrow> bool" where
  "truthy PNone = False"
| "truthy (PInt i) = (i \<noteq> 0)"
| "truthy (PStr s) = (s \<noteq> [])"

text \<open>
  Python's \<^verbatim>\<open>int(x)\<close> on a number: the fraction is dropped, towards zero. A number is
  the real it denotes (an integer, or a finite float); the floats that are not numbers
  and arguments that are not numeric are outside the model.
\<close>

definition py_int :: "real \<Rightarrow> int" where
  "py_int x = (if 0 \<le> x then \<lfloor>x\<rfloor> else \<lceil>x\<rceil>)"

subsection \<open>The entity and its collaborator\<close>

record Appliance =
  appliance_id :: string
  nickname :: string

text \<open>
  The client of the remote service. \<open>executed\<close> lists the calls of
  \<^verbatim>\<open>execute_action\<close> it has received, oldest first. \<open>fault\<close> is what the service does
  with a call: given the calls received so far and the new action, \<open>None\<close> when the call
  returns and \<open>Some e\<close> when it raises \<open>e\<close>.
\<close>

record Frigidaire =
  executed :: "(Appliance \<times> Action) list"
  fault :: "(Appliance \<times> Action) list \<Rightarrow> Action \<Rightarrow> error option"

datatype LogRecord = LogError string | LogDebug string int

text \<open>
  The fields of \<^verbatim>\<open>FrigidaireClimate\<close> that the methods read or write, named as in the
  source without the leading underscore (\<open>details\<close> is \<^verbatim>\<open>_details\<close>, \<open>attr_available\<close> is
  \<^verbatim>\<open>_attr_available\<close>), and the records the module's logger has been given.
\<close>

record FrigidaireClimate =
  client :: Frigidaire
  appliance :: Appliance
  details :: "Details option"
  attr_available :: bool
  logged :: "LogRecord list"

type_synonym 'a outcome = "(error + 'a) \<times> FrigidaireClimate"

text \<open>
  Modelled from the spec: the property \<^verbatim>\<open>available\<close> belongs to the host platform's entity
  base class; the spec has the adapter track its previous availability in the flag that
  \<^verbatim>\<open>update\<close> writes, so reading \<^verbatim>\<open>self.available\<close> gives that flag.
\<close>

definition available :: "FrigidaireClimate \<Rightarrow> bool" where
  "available self = attr_available self"

text \<open>
  \<^verbatim>\<open>self._client.execute_action(self._appliance, action)\<close>: the client receives the call,
  then either returns or raises.
\<close>

definition execute_action :: "Action \<Rightarrow> FrigidaireClimate \<Rightarrow> unit outcome" where
  "execute_action action self =
     (let c = client self;
          self' = self\<lparr>client := c\<lparr>executed := executed c @ [(appliance self, action)]\<rparr>\<rparr>
      in case fault c (executed c) action of
           None \<Rightarrow> (Inr (), self')
         | Some e \<Rightarrow> (Inl e, self'))"

text \<open>\<^verbatim>\<open>self._details.get(key)\<close>; before the first poll \<^verbatim>\<open>_details\<close> is \<^verbatim>\<open>None\<close>.\<close>

definition details_get :: "FrigidaireClimate \<Rightarrow> string \<Rightarrow> error + PyVal" where
  "details_get self k =
     (case details self of
        None \<Rightarrow> Inl AttributeError
      | Some d \<Rightarrow> Inr (dict_get d k))"

subsection \<open>Read accessors\<close>

text \<open>
  The accessors, and the commands that read the details or a table keyed by members,
  take the library as their first argument.
\<close>

definition temperature_unit :: "Library \<Rightarrow> FrigidaireClimate \<Rightarrow> error + TempUnit" where
  "temperature_unit lib self =
     (case details_get self (detail_value lib Detail.TEMPERATURE_REPRESENTATION) of
        Inl e \<Rightarrow> Inl e
      | Inr unit \<Rightarrow> subscript (FRIGIDAIRE_TO_HA_UNIT lib) unit)"

definition target_temperature :: "Library \<Rightarrow> FrigidaireClimate \<Rightarrow> error + PyVal" where
  "target_temperature lib self =
     (case temperature_unit lib self of
        Inl e \<Rightarrow> Inl e
      | Inr u \<Rightarrow>
          if u = TEMP_FAHRENHEIT
          then details_get self (detail_value lib Detail.TARGET_TEMPERATURE_F)
          else details_get self (detail_value lib Detail.TARGET_TEMPERATURE_C))"

definition hvac_mode :: "Library \<Rightarrow> FrigidaireClimate \<Rightarrow> error + string" where
  "hvac_mode lib self =
     (case details_get self (detail_value lib Detail.MODE) of
        Inl e \<Rightarrow> Inl e
      | Inr frigidaire_mode \<Rightarrow> subscript (FRIGIDAIRE_TO_HA_MODE lib) frigidaire_mode)"

definition current_temperature :: "Library \<Rightarrow> FrigidaireClimate \<Rightarrow> error + PyVal" where
  "current_temperature lib self =
     (case temperature_unit lib self of
        Inl e \<Rightarrow> Inl e
      | Inr u \<Rightarrow>
          if u = TEMP_FAHRENHEIT
          then details_get self (detail_value lib Detail.AMBIENT_TEMPERATURE_F)
          else details_get self (detail_value lib Detail.AMBIENT_TEMPERATURE_C))"

definition fan_mode :: "Library \<Rightarrow> FrigidaireClimate \<Rightarrow> error + string" where
  "fan_mode lib self =
     (case details_get self (detail_value lib Detail.FAN_SPEED) of
        Inl e \<Rightarrow> Inl e
      | Inr fan_speed \<Rightarrow>
          if \<not> truthy fan_speed then Inr FAN_OFF
          else subscript (FRIGIDAIRE_TO_HA_FAN_SPEED lib) fan_speed)"

definition min_temp :: "Library \<Rightarrow> FrigidaireClimate \<Rightarrow> error + int" where
  "min_temp lib self =
     (case temperature_unit lib self of
        Inl e \<Rightarrow> Inl e
      | Inr u \<Rightarrow> if u = TEMP_FAHRENHEIT then Inr 60 else Inr 16)"

definition max_temp :: "Library \<Rightarrow> FrigidaireClimate \<Rightarrow> error + int" where
  "max_temp lib self =
     (case temperature_unit lib self of
        Inl e \<Rightarrow> Inl e
      | Inr u \<Rightarrow> if u = TEMP_FAHRENHEIT then Inr 90 else Inr 32)"

text \<open>The one entry, \<^verbatim>\<open>check_filter\<close>, of the dictionary the property returns.\<close>

definition extra_state_attributes :: "Library \<Rightarrow> FrigidaireClimate \<Rightarrow> error + bool" where
  "extra_state_attributes lib self =
     (case details_get self (detail_value lib Detail.FILTER_STATE) of
        Inl e \<Rightarrow> Inl e
      | Inr v \<Rightarrow> Inr (v = PStr ''CHANGE''))"

subsection \<open>Commands\<close>

text \<open>
  \<^verbatim>\<open>set_temperature(**kwargs)\<close>. The keyword arguments are a dictionary; a keyword that
  is missing and one that is \<^verbatim>\<open>None\<close> look the same to \<^verbatim>\<open>kwargs.get\<close>. The debug record
  keeps the message template and the number formatted into it.
\<close>

definition set_temperature ::
  "Library \<Rightarrow> (string \<rightharpoonup> real) \<Rightarrow> FrigidaireClimate \<Rightarrow> unit outcome"
where
  "set_temperature lib kwargs self =
     (case kwargs ATTR_TEMPERATURE of
        None \<Rightarrow> (Inr (), self)
      | Some t \<Rightarrow>
          (let temperature = py_int t in
           case temperature_unit lib self of
             Inl e \<Rightarrow> (Inl e, self)
           | Inr u \<Rightarrow>
               if u = TEMP_FAHRENHEIT
               then execute_action (Action.set_temperature_f temperature)
                      (self\<lparr>logged := logged self @
                         [LogDebug ''Setting temperature to int({}) via set_temperature_f''
                            temperature]\<rparr>)
               else execute_action (Action.set_temperature_c temperature)
                      (self\<lparr>logged := logged self @
                         [LogDebug ''Setting temperature to int({}) via set_temperature_c''
                            temperature]\<rparr>)))"

definition set_fan_mode :: "string \<Rightarrow> FrigidaireClimate \<Rightarrow> unit outcome" where
  "set_fan_mode mode self =
     (if HA_TO_FRIGIDAIRE_FAN_MODE mode = None then (Inr (), self)
      else case subscript HA_TO_FRIGIDAIRE_FAN_MODE mode of
             Inl e \<Rightarrow> (Inl e, self)
           | Inr speed \<Rightarrow> execute_action (Action.set_fan_speed speed) self)"

text \<open>
  In \<open>set_fan_mode\<close> and \<open>set_hvac_mode\<close> the argument, \<^verbatim>\<open>fan_mode\<close> and \<^verbatim>\<open>hvac_mode\<close>
  in the source, is called \<open>mode\<close>: the source's names are those of the accessors.
\<close>

text \<open>
  The block of \<^verbatim>\<open>set_hvac_mode\<close> under "Turn on if not currently on": power on, then
  the target temperature is read from the details in memory and sent again.
\<close>

definition turn_on :: "Library \<Rightarrow> FrigidaireClimate \<Rightarrow> unit outcome" where
  "turn_on lib self =
     (case execute_action (Action.set_power Power.ON) self of
        (Inl e, self1) \<Rightarrow> (Inl e, self1)
      | (Inr _, self1) \<Rightarrow>
          (case target_temperature lib self1 of
             Inl e \<Rightarrow> (Inl e, self1)
           | Inr t \<Rightarrow> execute_action (Action.set_temperature t) self1))"

definition set_hvac_mode :: "Library \<Rightarrow> string \<Rightarrow> FrigidaireClimate \<Rightarrow> unit outcome" where
  "set_hvac_mode lib mode self =
     (if mode = HVAC_MODE_OFF
      then execute_action (Action.set_power Power.OFF) self
      else if HA_TO_FRIGIDAIRE_HVAC_MODE mode = None then (Inr (), self)
      else case details_get self (detail_value lib Detail.MODE) of
             Inl e \<Rightarrow> (Inl e, self)
           | Inr m \<Rightarrow>
               (case (if m = PStr (mode_value lib Mode.OFF) then turn_on lib self else (Inr (), self)) of
                  (Inl e, self1) \<Rightarrow> (Inl e, self1)
                | (Inr _, self1) \<Rightarrow>
                    (case subscript HA_TO_FRIGIDAIRE_HVAC_MODE mode of
                       Inl e \<Rightarrow> (Inl e, self1)
                     | Inr frigidaire_mode \<Rightarrow>
                         execute_action (Action.set_mode frigidaire_mode) self1)))"

subsection \<open>Polling\<close>

text \<open>
  \<^verbatim>\<open>update()\<close>. The argument is what \<^verbatim>\<open>get_appliance_details\<close> does on this poll: it
  returns a dictionary or raises. Only \<^verbatim>\<open>FrigidaireException\<close> is caught; any other
  exception leaves \<^verbatim>\<open>update\<close> as it came.
\<close>

definition update :: "error + Details \<Rightarrow> FrigidaireClimate \<Rightarrow> unit outcome" where
  "update poll self =
     (case poll of
        Inr d \<Rightarrow>
          (let self1 = self\<lparr>details := Some d\<rparr> in
           case details_get self1 ''connectivityState'' of
             Inl e \<Rightarrow> (Inl e, self1)
           | Inr v \<Rightarrow> (Inr (), self1\<lparr>attr_available := (v = PStr ''connected'')\<rparr>))
      | Inl e \<Rightarrow>
          if e = FrigidaireException
          then (let self1 =
                      (if available self
                       then self\<lparr>logged := logged self @
                              [LogError ''Failed to connect to Frigidaire servers'']\<rparr>
                       else self)
                in (Inr (), self1\<lparr>attr_available := False\<rparr>))
          else (Inl e, self))"

subsection \<open>Runs and example states\<close>

text \<open>The entity after \<open>n\<close> polls in a row that each raise \<^verbatim>\<open>FrigidaireException\<close>.\<close>

primrec failed_polls :: "nat \<Rightarrow> FrigidaireClimate \<Rightarrow> FrigidaireClimate" where
  "failed_polls 0 self = self"
| "failed_polls (Suc n) self = failed_polls n (snd (update (Inl FrigidaireException) self))"

text \<open>
  Concrete states on which the theorems below are instantiated, written with the
  strings of \<open>example_library\<close>: a Fahrenheit appliance that is switched off, seen
  through a client that has received no call yet.
\<close>

definition example_appliance :: Appliance where
  "example_appliance = \<lparr>appliance_id = ''ac-1'', nickname = ''Bedroom''\<rparr>"

definition example_details :: Details where
  "example_details =
     [''temperatureRepresentation'' \<mapsto> PStr ''FAHRENHEIT'',
      ''targetTemperatureF'' \<mapsto> PInt 72,
      ''targetTemperatureC'' \<mapsto> PInt 22,
      ''ambientTemperatureF'' \<mapsto> PInt 75,
      ''ambientTemperatureC'' \<mapsto> PInt 24,
      ''mode'' \<mapsto> PStr ''OFF'',
      ''fanSpeedSetting'' \<mapsto> PStr ''LOW'',
      ''filterState'' \<mapsto> PStr ''OK'',
      ''connectivityState'' \<mapsto> PStr ''connected'']"

text \<open>Details whose unit, mode and fan speed are values that none of the tables has.\<close>

definition foreign_details :: Details where
  "foreign_details =
     [''temperatureRepresentation'' \<mapsto> PStr ''KELVIN'',
      ''mode'' \<mapsto> PStr ''HEAT'',
      ''fanSpeedSetting'' \<mapsto> PInt 3]"

text \<open>The service accepts every call, or rejects every call.\<close>

definition accepting :: "(Appliance \<times> Action) list \<Rightarrow> Action \<Rightarrow> error option" where
  "accepting history action = None"

definition rejecting :: "(Appliance \<times> Action) list \<Rightarrow> Action \<Rightarrow> error option" where
  "rejecting history action = Some FrigidaireException"

definition example_entity ::
  "((Appliance \<times> Action) list \<Rightarrow> Action \<Rightarrow> error option) \<Rightarrow> Details \<Rightarrow> FrigidaireClimate"
where
  "example_entity service d =
     \<lparr>client = \<lparr>executed = [], fault = service\<rparr>,
      appliance = example_appliance,
      details = Some d,
      attr_available = True,
      logged = []\<rparr>"

section \<open>Properties\<close>

lemmas platform_defs =
  HVAC_MODE_OFF_def HVAC_MODE_COOL_def HVAC_MODE_AUTO_def HVAC_MODE_FAN_ONLY_def
  FAN_AUTO_def FAN_LOW_def FAN_MEDIUM_def FAN_HIGH_def FAN_OFF_def ATTR_TEMPERATURE_def

lemmas table_defs =
  FRIGIDAIRE_TO_HA_UNIT_def FRIGIDAIRE_TO_HA_MODE_def FRIGIDAIRE_TO_HA_FAN_SPEED_def
  HA_TO_FRIGIDAIRE_FAN_MODE_def HA_TO_FRIGIDAIRE_HVAC_MODE_def

lemmas example_defs =
  example_appliance_def example_details_def example_entity_def accepting_def

subsection \<open>The library\<close>

text \<open>
  Two members of one enumeration have different values, whatever the library; and the
  members of \<open>example_library\<close> have the values of \<open>example_values\<close>.
\<close>

lemma library_well_formed: "well_formed (Rep_Library lib)"
  using Rep_Library [of lib] by simp

lemma unit_value_eq [simp]: "(unit_value lib u = unit_value lib u') = (u = u')"
  using library_well_formed [of lib]
  by (cases u; cases u') (auto simp: well_formed_def unit_value_def)

lemma mode_value_eq [simp]: "(mode_value lib m = mode_value lib m') = (m = m')"
  using library_well_formed [of lib]
  by (cases m; cases m') (auto simp: well_formed_def mode_value_def)

lemma fan_speed_value_eq [simp]: "(fan_speed_value lib f = fan_speed_value lib f') = (f = f')"
  using library_well_formed [of lib]
  by (cases f; cases f') (auto simp: well_formed_def fan_speed_value_def)

lemma detail_value_eq [simp]: "(detail_value lib k = detail_value lib k') = (k = k')"
  using library_well_formed [of lib]
  by (cases k; cases k') (auto simp: well_formed_def detail_value_def)

lemma example_library_values:
  "unit_value example_library = example_unit"
  "mode_value example_library = example_mode"
  "fan_speed_value example_library = example_fan_speed"
  "detail_value example_library = example_detail"
proof -
  have "well_formed example_values"
    by (simp add: well_formed_def example_values_def)
  then have "Rep_Library example_library = example_values"
    by (simp add: example_library_def Abs_Library_inverse)
  then show "unit_value example_library = example_unit"
    "mode_value example_library = example_mode"
    "fan_speed_value example_library = example_fan_speed"
    "detail_value example_library = example_detail"
    by (simp_all add: unit_value_def mode_value_def fan_speed_value_def detail_value_def
        example_values_def)
qed

subsection \<open>What a call to the client changes\<close>

lemma execute_action_executed:
  "executed (client (snd (execute_action action self))) =
     executed (client self) @ [(appliance self, action)]"
  by (simp add: execute_action_def Let_def split: option.split)

lemma execute_action_result:
  "fst (execute_action action self) =
     (case fault (client self) (executed (client self)) action of
        None \<Rightarrow> Inr () | Some e \<Rightarrow> Inl e)"
  by (simp add: execute_action_def Let_def split: option.split)

lemma execute_action_frame:
  "details (snd (execute_action action self)) = details self"
  "appliance (snd (execute_action action self)) = appliance self"
  "attr_available (snd (execute_action action self)) = attr_available self"
  "logged (snd (execute_action action self)) = logged self"
  "fault (client (snd (execute_action action self))) = fault (client self)"
  by (simp_all add: execute_action_def Let_def split: option.split)

lemma execute_action_accepted:
  "fault (client self) (executed (client self)) action = None \<Longrightarrow>
   execute_action action self =
     (Inr (), self\<lparr>client := (client self)\<lparr>executed :=
                 executed (client self) @ [(appliance self, action)]\<rparr>\<rparr>)"
  by (simp add: execute_action_def Let_def)

text \<open>The accessors read nothing but the details.\<close>

lemma accessors_cong:
  assumes "details s = details s'"
  shows "temperature_unit lib s = temperature_unit lib s'"
    and "target_temperature lib s = target_temperature lib s'"
    and "current_temperature lib s = current_temperature lib s'"
    and "hvac_mode lib s = hvac_mode lib s'"
    and "fan_mode lib s = fan_mode lib s'"
    and "min_temp lib s = min_temp lib s'"
    and "max_temp lib s = max_temp lib s'"
    and "extra_state_attributes lib s = extra_state_attributes lib s'"
  unfolding temperature_unit_def target_temperature_def current_temperature_def
    hvac_mode_def fan_mode_def min_temp_def max_temp_def extra_state_attributes_def
    details_get_def assms
  by (rule refl)+

subsection \<open>The tables\<close>

text \<open>What each table from the remote vocabulary holds for a member.\<close>

lemma unit_table_member:
  "FRIGIDAIRE_TO_HA_UNIT lib (PStr (unit_value lib u)) =
     Some (case u of Unit.FAHRENHEIT \<Rightarrow> TEMP_FAHRENHEIT | Unit.CELSIUS \<Rightarrow> TEMP_CELSIUS)"
  by (cases u) (simp_all add: FRIGIDAIRE_TO_HA_UNIT_def)

lemma mode_table_member:
  "FRIGIDAIRE_TO_HA_MODE lib (PStr (mode_value lib m)) =
     Some (case m of Mode.OFF \<Rightarrow> HVAC_MODE_OFF | Mode.COOL \<Rightarrow> HVAC_MODE_COOL
           | Mode.FAN \<Rightarrow> HVAC_MODE_FAN_ONLY | Mode.ECO \<Rightarrow> HVAC_MODE_AUTO)"
  by (cases m) (simp_all add: FRIGIDAIRE_TO_HA_MODE_def)

lemma fan_speed_table_member:
  "FRIGIDAIRE_TO_HA_FAN_SPEED lib (PStr (fan_speed_value lib f)) =
     Some (case f of FanSpeed.AUTO \<Rightarrow> FAN_AUTO | FanSpeed.LOW \<Rightarrow> FAN_LOW
           | FanSpeed.MEDIUM \<Rightarrow> FAN_MEDIUM | FanSpeed.HIGH \<Rightarrow> FAN_HIGH)"
  by (cases f) (simp_all add: FRIGIDAIRE_TO_HA_FAN_SPEED_def)

lemma table_domains:
  "dom (FRIGIDAIRE_TO_HA_UNIT lib) =
     {PStr (unit_value lib Unit.FAHRENHEIT), PStr (unit_value lib Unit.CELSIUS)}"
  "dom (FRIGIDAIRE_TO_HA_MODE lib) =
     {PStr (mode_value lib Mode.OFF), PStr (mode_value lib Mode.COOL),
      PStr (mode_value lib Mode.FAN), PStr (mode_value lib Mode.ECO)}"
  "dom (FRIGIDAIRE_TO_HA_FAN_SPEED lib) =
     {PStr (fan_speed_value lib FanSpeed.AUTO), PStr (fan_speed_value lib FanSpeed.LOW),
      PStr (fan_speed_value lib FanSpeed.MEDIUM), PStr (fan_speed_value lib FanSpeed.HIGH)}"
  by (auto simp: table_defs)

lemma table_keys_are_members:
  "FRIGIDAIRE_TO_HA_UNIT lib v = Some r \<Longrightarrow> \<exists>u. v = PStr (unit_value lib u)"
  "FRIGIDAIRE_TO_HA_MODE lib v = Some t \<Longrightarrow> \<exists>m. v = PStr (mode_value lib m)"
  "FRIGIDAIRE_TO_HA_FAN_SPEED lib v = Some t \<Longrightarrow> \<exists>f. v = PStr (fan_speed_value lib f)"
  by (auto simp: table_defs split: if_splits)

text \<open>The recognized modes other than off are cool, auto and fan_only.\<close>

lemma recognized_non_off:
  "(HA_TO_FRIGIDAIRE_HVAC_MODE mode \<noteq> None \<and> mode \<noteq> HVAC_MODE_OFF) =
   (mode \<in> {HVAC_MODE_COOL, HVAC_MODE_AUTO, HVAC_MODE_FAN_ONLY})"
  by (auto simp: table_defs platform_defs)

text \<open>
  C7. Each table from the remote vocabulary that has a table back is undone by it: a key
  of the remote-to-platform mode table is a mode, and the platform-to-remote mode table
  sends its token back to that mode; the same holds for fan speeds. In particular remote
  eco becomes platform auto, and auto becomes eco again. (The unit table has no table
  back in the source.) A token that is not a key of a platform-to-remote table makes the
  command that looks it up return normally with the entity and its client unchanged.
\<close>

theorem tables_round_trip:
  "(\<forall>x token. FRIGIDAIRE_TO_HA_MODE lib x = Some token \<longrightarrow>
      (\<exists>m. x = PStr (mode_value lib m) \<and> HA_TO_FRIGIDAIRE_HVAC_MODE token = Some m)) \<and>
   (\<forall>x token. FRIGIDAIRE_TO_HA_FAN_SPEED lib x = Some token \<longrightarrow>
      (\<exists>f. x = PStr (fan_speed_value lib f) \<and> HA_TO_FRIGIDAIRE_FAN_MODE token = Some f)) \<and>
   FRIGIDAIRE_TO_HA_MODE lib (PStr (mode_value lib Mode.ECO)) = Some HVAC_MODE_AUTO \<and>
   HA_TO_FRIGIDAIRE_HVAC_MODE HVAC_MODE_AUTO = Some Mode.ECO \<and>
   (HA_TO_FRIGIDAIRE_FAN_MODE mode = None \<longrightarrow> set_fan_mode mode self = (Inr (), self)) \<and>
   (HA_TO_FRIGIDAIRE_HVAC_MODE mode = None \<longrightarrow> set_hvac_mode lib mode self = (Inr (), self))"
proof (intro conjI allI impI)
  fix x token
  assume a: "FRIGIDAIRE_TO_HA_MODE lib x = Some token"
  then obtain m where x: "x = PStr (mode_value lib m)"
    using table_keys_are_members(2) by blast
  with a have "HA_TO_FRIGIDAIRE_HVAC_MODE token = Some m"
    by (cases m) (auto simp: mode_table_member HA_TO_FRIGIDAIRE_HVAC_MODE_def platform_defs)
  with x show "\<exists>m. x = PStr (mode_value lib m) \<and> HA_TO_FRIGIDAIRE_HVAC_MODE token = Some m"
    by blast
next
  fix x token
  assume a: "FRIGIDAIRE_TO_HA_FAN_SPEED lib x = Some token"
  then obtain f where x: "x = PStr (fan_speed_value lib f)"
    using table_keys_are_members(3) by blast
  with a have "HA_TO_FRIGIDAIRE_FAN_MODE token = Some f"
    by (cases f) (auto simp: fan_speed_table_member HA_TO_FRIGIDAIRE_FAN_MODE_def platform_defs)
  with x show "\<exists>f. x = PStr (fan_speed_value lib f) \<and> HA_TO_FRIGIDAIRE_FAN_MODE token = Some f"
    by blast
next
  show "FRIGIDAIRE_TO_HA_MODE lib (PStr (mode_value lib Mode.ECO)) = Some HVAC_MODE_AUTO"
    by (simp add: mode_table_member)
next
  show "HA_TO_FRIGIDAIRE_HVAC_MODE HVAC_MODE_AUTO = Some Mode.ECO"
    by (simp add: HA_TO_FRIGIDAIRE_HVAC_MODE_def platform_defs)
next
  assume "HA_TO_FRIGIDAIRE_FAN_MODE mode = None"
  then show "set_fan_mode mode self = (Inr (), self)"
    by (simp add: set_fan_mode_def)
next
  assume "HA_TO_FRIGIDAIRE_HVAC_MODE mode = None"
  moreover from this have "mode \<noteq> HVAC_MODE_OFF"
    by (auto simp: HA_TO_FRIGIDAIRE_HVAC_MODE_def)
  ultimately show "set_hvac_mode lib mode self = (Inr (), self)"
    by (simp add: set_hvac_mode_def)
qed

theorem tables_round_trip_witness:
  "FRIGIDAIRE_TO_HA_MODE example_library (PStr ''ECO'') = Some ''auto'' \<and>
   HA_TO_FRIGIDAIRE_HVAC_MODE ''auto'' = Some Mode.ECO \<and>
   FRIGIDAIRE_TO_HA_FAN_SPEED example_library (PStr ''HIGH'') = Some ''high'' \<and>
   HA_TO_FRIGIDAIRE_FAN_MODE ''high'' = Some FanSpeed.HIGH \<and>
   HA_TO_FRIGIDAIRE_FAN_MODE ''turbo'' = None \<and>
   set_fan_mode ''turbo'' (example_entity accepting example_details) =
     (Inr (), example_entity accepting example_details) \<and>
   HA_TO_FRIGIDAIRE_HVAC_MODE ''heat'' = None \<and>
   set_hvac_mode example_library ''heat'' (example_entity accepting example_details) =
     (Inr (), example_entity accepting example_details)"
proof -
  have fwd: "FRIGIDAIRE_TO_HA_MODE example_library (PStr ''ECO'') = Some ''auto''"
            "FRIGIDAIRE_TO_HA_FAN_SPEED example_library (PStr ''HIGH'') = Some ''high''"
    by (simp_all add: table_defs platform_defs example_library_values)
  have out: "HA_TO_FRIGIDAIRE_FAN_MODE ''turbo'' = None" "HA_TO_FRIGIDAIRE_HVAC_MODE ''heat'' = None"
    by (simp_all add: table_defs platform_defs)
  note t = tables_round_trip
    [of example_library "''turbo''" "example_entity accepting example_details"]
  note h = tables_round_trip
    [of example_library "''heat''" "example_entity accepting example_details"]
  from t [THEN conjunct1, rule_format, OF fwd(1)]
  have 1: "HA_TO_FRIGIDAIRE_HVAC_MODE ''auto'' = Some Mode.ECO"
    by (auto simp: HA_TO_FRIGIDAIRE_HVAC_MODE_def platform_defs)
  from t [THEN conjunct2, THEN conjunct1, rule_format, OF fwd(2)]
  have 2: "HA_TO_FRIGIDAIRE_FAN_MODE ''high'' = Some FanSpeed.HIGH"
    by (auto simp: HA_TO_FRIGIDAIRE_FAN_MODE_def platform_defs)
  from t [THEN conjunct2, THEN conjunct2, THEN conjunct2, THEN conjunct2, THEN conjunct1,
          rule_format, OF out(1)]
  have 3: "set_fan_mode ''turbo'' (example_entity accepting example_details) =
     (Inr (), example_entity accepting example_details)" .
  from h [THEN conjunct2, THEN conjunct2, THEN conjunct2, THEN conjunct2, THEN conjunct2,
          rule_format, OF out(2)]
  have 4: "set_hvac_mode example_library ''heat'' (example_entity accepting example_details) =
     (Inr (), example_entity accepting example_details)" .
  from fwd out 1 2 3 4 show ?thesis by (simp only: simp_thms)
qed

subsection \<open>Read accessors\<close>

lemma temperature_unit_in_table:
  "details self = Some d \<Longrightarrow>
   temperature_unit lib self =
     subscript (FRIGIDAIRE_TO_HA_UNIT lib)
       (dict_get d (detail_value lib Detail.TEMPERATURE_REPRESENTATION))"
  by (simp add: temperature_unit_def details_get_def)

text \<open>The target temperature can be read exactly when the unit is a key of the unit table.\<close>

lemma target_temperature_defined:
  "details self = Some d \<Longrightarrow>
   (\<exists>t. target_temperature lib self = Inr t) =
     (dict_get d (detail_value lib Detail.TEMPERATURE_REPRESENTATION)
        \<in> dom (FRIGIDAIRE_TO_HA_UNIT lib))"
  by (auto simp: target_temperature_def temperature_unit_in_table subscript_def details_get_def
      dom_def split: option.splits)

text \<open>
  C10. \<open>temperature_unit\<close>, \<open>hvac_mode\<close> and \<open>fan_mode\<close> index their table with the
  value found in the details. The keys of each table are its enumeration's members.
  When the value is not a key of the table (for the fan speed: a true value that is not
  a key) the accessor raises \<^verbatim>\<open>KeyError\<close>. When it is a key (for the fan speed: a true
  value that is a key) the accessor returns what the table holds for it: the platform
  unit, mode token or fan token of that member. A fan speed that is not true gives the
  platform's fan-off token without any lookup.
\<close>

theorem accessors_raise_outside_tables:
  assumes "details self = Some d"
  shows
    "dom (FRIGIDAIRE_TO_HA_UNIT lib) =
       {PStr (unit_value lib Unit.FAHRENHEIT), PStr (unit_value lib Unit.CELSIUS)} \<and>
     dom (FRIGIDAIRE_TO_HA_MODE lib) =
       {PStr (mode_value lib Mode.OFF), PStr (mode_value lib Mode.COOL),
        PStr (mode_value lib Mode.FAN), PStr (mode_value lib Mode.ECO)} \<and>
     dom (FRIGIDAIRE_TO_HA_FAN_SPEED lib) =
       {PStr (fan_speed_value lib FanSpeed.AUTO), PStr (fan_speed_value lib FanSpeed.LOW),
        PStr (fan_speed_value lib FanSpeed.MEDIUM), PStr (fan_speed_value lib FanSpeed.HIGH)} \<and>
     (dict_get d (detail_value lib Detail.TEMPERATURE_REPRESENTATION)
        \<notin> dom (FRIGIDAIRE_TO_HA_UNIT lib) \<longrightarrow>
        temperature_unit lib self = Inl KeyError) \<and>
     (\<forall>r. FRIGIDAIRE_TO_HA_UNIT lib
            (dict_get d (detail_value lib Detail.TEMPERATURE_REPRESENTATION)) = Some r \<longrightarrow>
        temperature_unit lib self = Inr r) \<and>
     (\<forall>u. dict_get d (detail_value lib Detail.TEMPERATURE_REPRESENTATION)
            = PStr (unit_value lib u) \<longrightarrow>
        temperature_unit lib self =
          Inr (case u of Unit.FAHRENHEIT \<Rightarrow> TEMP_FAHRENHEIT | Unit.CELSIUS \<Rightarrow> TEMP_CELSIUS)) \<and>
     (dict_get d (detail_value lib Detail.MODE) \<notin> dom (FRIGIDAIRE_TO_HA_MODE lib) \<longrightarrow>
        hvac_mode lib self = Inl KeyError) \<and>
     (\<forall>r. FRIGIDAIRE_TO_HA_MODE lib (dict_get d (detail_value lib Detail.MODE)) = Some r \<longrightarrow>
        hvac_mode lib self = Inr r) \<and>
     (\<forall>m. dict_get d (detail_value lib Detail.MODE) = PStr (mode_value lib m) \<longrightarrow>
        hvac_mode lib self =
          Inr (case m of Mode.OFF \<Rightarrow> HVAC_MODE_OFF | Mode.COOL \<Rightarrow> HVAC_MODE_COOL
               | Mode.FAN \<Rightarrow> HVAC_MODE_FAN_ONLY | Mode.ECO \<Rightarrow> HVAC_MODE_AUTO)) \<and>
     (truthy (dict_get d (detail_value lib Detail.FAN_SPEED)) \<and>
      dict_get d (detail_value lib Detail.FAN_SPEED) \<notin> dom (FRIGIDAIRE_TO_HA_FAN_SPEED lib) \<longrightarrow>
        fan_mode lib self = Inl KeyError) \<and>
     (\<forall>r. truthy (dict_get d (detail_value lib Detail.FAN_SPEED)) \<and>
          FRIGIDAIRE_TO_HA_FAN_SPEED lib (dict_get d (detail_value lib Detail.FAN_SPEED)) = Some r
          \<longrightarrow> fan_mode lib self = Inr r) \<and>
     (\<forall>f. truthy (dict_get d (detail_value lib Detail.FAN_SPEED)) \<and>
          dict_get d (detail_value lib Detail.FAN_SPEED) = PStr (fan_speed_value lib f) \<longrightarrow>
        fan_mode lib self =
          Inr (case f of FanSpeed.AUTO \<Rightarrow> FAN_AUTO | FanSpeed.LOW \<Rightarrow> FAN_LOW
               | FanSpeed.MEDIUM \<Rightarrow> FAN_MEDIUM | FanSpeed.HIGH \<Rightarrow> FAN_HIGH)) \<and>
     (\<not> truthy (dict_get d (detail_value lib Detail.FAN_SPEED)) \<longrightarrow>
        fan_mode lib self = Inr FAN_OFF)"
proof -
  let ?u = "dict_get d (detail_value lib Detail.TEMPERATURE_REPRESENTATION)"
  let ?m = "dict_get d (detail_value lib Detail.MODE)"
  let ?f = "dict_get d (detail_value lib Detail.FAN_SPEED)"
  have U: "temperature_unit lib self = subscript (FRIGIDAIRE_TO_HA_UNIT lib) ?u"
    using assms by (simp add: temperature_unit_def details_get_def)
  have M: "hvac_mode lib self = subscript (FRIGIDAIRE_TO_HA_MODE lib) ?m"
    using assms by (simp add: hvac_mode_def details_get_def)
  have F: "fan_mode lib self =
      (if \<not> truthy ?f then Inr FAN_OFF else subscript (FRIGIDAIRE_TO_HA_FAN_SPEED lib) ?f)"
    using assms by (simp add: fan_mode_def details_get_def)
  have out: "subscript t v = Inl KeyError" if "v \<notin> dom t" for t :: "PyVal \<rightharpoonup> 'a" and v
    using that by (simp add: subscript_def dom_def)
  have inn: "subscript t v = Inr r" if "t v = Some r" for t :: "PyVal \<rightharpoonup> 'a" and v r
    using that by (simp add: subscript_def)
  show ?thesis
  proof (intro conjI allI impI)
    fix u assume "?u = PStr (unit_value lib u)"
    then show "temperature_unit lib self =
        Inr (case u of Unit.FAHRENHEIT \<Rightarrow> TEMP_FAHRENHEIT | Unit.CELSIUS \<Rightarrow> TEMP_CELSIUS)"
      by (simp add: U subscript_def unit_table_member)
  next
    fix m assume "?m = PStr (mode_value lib m)"
    then show "hvac_mode lib self =
          Inr (case m of Mode.OFF \<Rightarrow> HVAC_MODE_OFF | Mode.COOL \<Rightarrow> HVAC_MODE_COOL
               | Mode.FAN \<Rightarrow> HVAC_MODE_FAN_ONLY | Mode.ECO \<Rightarrow> HVAC_MODE_AUTO)"
      by (simp add: M subscript_def mode_table_member)
  next
    fix f assume "truthy ?f \<and> ?f = PStr (fan_speed_value lib f)"
    then show "fan_mode lib self =
          Inr (case f of FanSpeed.AUTO \<Rightarrow> FAN_AUTO | FanSpeed.LOW \<Rightarrow> FAN_LOW
               | FanSpeed.MEDIUM \<Rightarrow> FAN_MEDIUM | FanSpeed.HIGH \<Rightarrow> FAN_HIGH)"
      by (auto simp: F subscript_def fan_speed_table_member)
  qed (simp_all add: table_domains [symmetric] U M F out inn)
qed

theorem accessors_raise_outside_tables_witness:
  "temperature_unit example_library (example_entity accepting foreign_details) = Inl KeyError \<and>
   hvac_mode example_library (example_entity accepting foreign_details) = Inl KeyError \<and>
   fan_mode example_library (example_entity accepting foreign_details) = Inl KeyError \<and>
   temperature_unit example_library (example_entity accepting example_details) =
     Inr TEMP_FAHRENHEIT \<and>
   hvac_mode example_library (example_entity accepting example_details) = Inr ''off'' \<and>
   fan_mode example_library (example_entity accepting example_details) = Inr ''low'' \<and>
   fan_mode example_library (example_entity accepting Map.empty) = Inr ''off''"
proof -
  have d: "details (example_entity accepting foreign_details) = Some foreign_details"
          "details (example_entity accepting example_details) = Some example_details"
          "details (example_entity accepting Map.empty) = Some Map.empty"
    by (simp_all add: example_entity_def)
  have out:
    "dict_get foreign_details (detail_value example_library Detail.TEMPERATURE_REPRESENTATION)
       \<notin> dom (FRIGIDAIRE_TO_HA_UNIT example_library)"
    "dict_get foreign_details (detail_value example_library Detail.MODE)
       \<notin> dom (FRIGIDAIRE_TO_HA_MODE example_library)"
    "truthy (dict_get foreign_details (detail_value example_library Detail.FAN_SPEED))"
    "dict_get foreign_details (detail_value example_library Detail.FAN_SPEED)
       \<notin> dom (FRIGIDAIRE_TO_HA_FAN_SPEED example_library)"
    by (simp_all add: table_domains dict_get_def foreign_details_def example_library_values)
  have inn:
    "dict_get example_details (detail_value example_library Detail.TEMPERATURE_REPRESENTATION)
       = PStr (unit_value example_library Unit.FAHRENHEIT)"
    "dict_get example_details (detail_value example_library Detail.MODE)
       = PStr (mode_value example_library Mode.OFF)"
    "truthy (dict_get example_details (detail_value example_library Detail.FAN_SPEED))"
    "dict_get example_details (detail_value example_library Detail.FAN_SPEED)
       = PStr (fan_speed_value example_library FanSpeed.LOW)"
    by (simp_all add: dict_get_def example_details_def example_library_values)
  have absent:
    "\<not> truthy (dict_get Map.empty (detail_value example_library Detail.FAN_SPEED))"
    by (simp add: dict_get_def)
  note F = accessors_raise_outside_tables [OF d(1), of example_library]
  note E = accessors_raise_outside_tables [OF d(2), of example_library]
  note N = accessors_raise_outside_tables [OF d(3), of example_library]
  have 1: "temperature_unit example_library (example_entity accepting foreign_details) = Inl KeyError"
    using F out(1) by simp
  have 2: "hvac_mode example_library (example_entity accepting foreign_details) = Inl KeyError"
    using F out(2) by simp
  have 3: "fan_mode example_library (example_entity accepting foreign_details) = Inl KeyError"
    using F out(3,4) by simp
  have 4: "temperature_unit example_library (example_entity accepting example_details) =
     Inr TEMP_FAHRENHEIT"
    using E inn(1) by simp
  have 5: "hvac_mode example_library (example_entity accepting example_details) = Inr ''off''"
    using E inn(2) by (simp add: platform_defs)
  have 6: "fan_mode example_library (example_entity accepting example_details) = Inr ''low''"
    using E inn(3,4) by (simp add: platform_defs)
  have 7: "fan_mode example_library (example_entity accepting Map.empty) = Inr ''off''"
    using N absent by (simp add: platform_defs)
  from 1 2 3 4 5 6 7 show ?thesis by (simp only: simp_thms)
qed

text \<open>
  C8, amended. \<open>target_temperature\<close> and \<open>current_temperature\<close> return the Fahrenheit
  field of the details when the unit field of the same details is Fahrenheit, and the
  Celsius field when it is Celsius; when the unit field is neither, both raise
  \<^verbatim>\<open>KeyError\<close>. Of two sets of details that differ only in the unit field, each unit
  being Fahrenheit or Celsius, one is read through the Fahrenheit fields and the other
  through the Celsius fields.
\<close>

theorem temperature_fields:
  assumes "details self = Some d"
  shows
    "(dict_get d (detail_value lib Detail.TEMPERATURE_REPRESENTATION)
        = PStr (unit_value lib Unit.FAHRENHEIT) \<longrightarrow>
        target_temperature lib self =
          Inr (dict_get d (detail_value lib Detail.TARGET_TEMPERATURE_F)) \<and>
        current_temperature lib self =
          Inr (dict_get d (detail_value lib Detail.AMBIENT_TEMPERATURE_F))) \<and>
     (dict_get d (detail_value lib Detail.TEMPERATURE_REPRESENTATION)
        = PStr (unit_value lib Unit.CELSIUS) \<longrightarrow>
        target_temperature lib self =
          Inr (dict_get d (detail_value lib Detail.TARGET_TEMPERATURE_C)) \<and>
        current_temperature lib self =
          Inr (dict_get d (detail_value lib Detail.AMBIENT_TEMPERATURE_C))) \<and>
     (dict_get d (detail_value lib Detail.TEMPERATURE_REPRESENTATION)
        \<notin> {PStr (unit_value lib Unit.FAHRENHEIT), PStr (unit_value lib Unit.CELSIUS)} \<longrightarrow>
        target_temperature lib self = Inl KeyError \<and>
        current_temperature lib self = Inl KeyError) \<and>
     (\<forall>self' d'.
        details self' = Some d' \<and>
        (\<forall>k. k \<noteq> detail_value lib Detail.TEMPERATURE_REPRESENTATION \<longrightarrow> d' k = d k) \<and>
        dict_get d' (detail_value lib Detail.TEMPERATURE_REPRESENTATION)
          \<noteq> dict_get d (detail_value lib Detail.TEMPERATURE_REPRESENTATION) \<and>
        dict_get d (detail_value lib Detail.TEMPERATURE_REPRESENTATION)
          \<in> {PStr (unit_value lib Unit.FAHRENHEIT), PStr (unit_value lib Unit.CELSIUS)} \<and>
        dict_get d' (detail_value lib Detail.TEMPERATURE_REPRESENTATION)
          \<in> {PStr (unit_value lib Unit.FAHRENHEIT), PStr (unit_value lib Unit.CELSIUS)}
        \<longrightarrow>
        (target_temperature lib self =
           Inr (dict_get d (detail_value lib Detail.TARGET_TEMPERATURE_F)) \<and>
         target_temperature lib self' =
           Inr (dict_get d (detail_value lib Detail.TARGET_TEMPERATURE_C)) \<and>
         current_temperature lib self =
           Inr (dict_get d (detail_value lib Detail.AMBIENT_TEMPERATURE_F)) \<and>
         current_temperature lib self' =
           Inr (dict_get d (detail_value lib Detail.AMBIENT_TEMPERATURE_C)))
        \<or>
        (target_temperature lib self =
           Inr (dict_get d (detail_value lib Detail.TARGET_TEMPERATURE_C)) \<and>
         target_temperature lib self' =
           Inr (dict_get d (detail_value lib Detail.TARGET_TEMPERATURE_F)) \<and>
         current_temperature lib self =
           Inr (dict_get d (detail_value lib Detail.AMBIENT_TEMPERATURE_C)) \<and>
         current_temperature lib self' =
           Inr (dict_get d (detail_value lib Detail.AMBIENT_TEMPERATURE_F))))"
proof -
  let ?key = "detail_value lib Detail.TEMPERATURE_REPRESENTATION"
  let ?F = "PStr (unit_value lib Unit.FAHRENHEIT)"
  let ?C = "PStr (unit_value lib Unit.CELSIUS)"
  have F: "target_temperature lib s =
             Inr (dict_get e (detail_value lib Detail.TARGET_TEMPERATURE_F)) \<and>
           current_temperature lib s =
             Inr (dict_get e (detail_value lib Detail.AMBIENT_TEMPERATURE_F))"
    if "details s = Some e" "dict_get e ?key = ?F" for s e
    using that unit_table_member [of lib Unit.FAHRENHEIT]
    by (simp add: target_temperature_def current_temperature_def temperature_unit_in_table
        subscript_def details_get_def)
  have C: "target_temperature lib s =
             Inr (dict_get e (detail_value lib Detail.TARGET_TEMPERATURE_C)) \<and>
           current_temperature lib s =
             Inr (dict_get e (detail_value lib Detail.AMBIENT_TEMPERATURE_C))"
    if "details s = Some e" "dict_get e ?key = ?C" for s e
    using that unit_table_member [of lib Unit.CELSIUS]
    by (simp add: target_temperature_def current_temperature_def temperature_unit_in_table
        subscript_def details_get_def)
  have K: "target_temperature lib self = Inl KeyError \<and>
           current_temperature lib self = Inl KeyError"
    if "dict_get d ?key \<notin> {?F, ?C}"
  proof -
    from that have "FRIGIDAIRE_TO_HA_UNIT lib (dict_get d ?key) = None"
      using table_domains(1) [of lib] by (auto simp: dom_def)
    then show ?thesis
      using assms
      by (simp add: target_temperature_def current_temperature_def temperature_unit_in_table
          subscript_def)
  qed
  have same: "dict_get e k = dict_get d k"
    if "\<forall>k. k \<noteq> ?key \<longrightarrow> e k = d k" "k \<noteq> ?key" for e k
    using that by (simp add: dict_get_def)
  show ?thesis
  proof (intro conjI impI allI)
    fix self' :: FrigidaireClimate and d' :: Details
    assume h: "details self' = Some d' \<and>
        (\<forall>k. k \<noteq> ?key \<longrightarrow> d' k = d k) \<and>
        dict_get d' ?key \<noteq> dict_get d ?key \<and>
        dict_get d ?key \<in> {?F, ?C} \<and> dict_get d' ?key \<in> {?F, ?C}"
    from h have cases: "(dict_get d ?key = ?F \<and> dict_get d' ?key = ?C) \<or>
                      (dict_get d ?key = ?C \<and> dict_get d' ?key = ?F)"
      by auto
    from h have eq: "\<And>k. k \<noteq> ?key \<Longrightarrow> dict_get d' k = dict_get d k"
      using same by blast
    have keys:
      "detail_value lib Detail.TARGET_TEMPERATURE_F \<noteq> ?key"
      "detail_value lib Detail.TARGET_TEMPERATURE_C \<noteq> ?key"
      "detail_value lib Detail.AMBIENT_TEMPERATURE_F \<noteq> ?key"
      "detail_value lib Detail.AMBIENT_TEMPERATURE_C \<noteq> ?key"
      by simp_all
    from cases show "(target_temperature lib self =
           Inr (dict_get d (detail_value lib Detail.TARGET_TEMPERATURE_F)) \<and>
         target_temperature lib self' =
           Inr (dict_get d (detail_value lib Detail.TARGET_TEMPERATURE_C)) \<and>
         current_temperature lib self =
           Inr (dict_get d (detail_value lib Detail.AMBIENT_TEMPERATURE_F)) \<and>
         current_temperature lib self' =
           Inr (dict_get d (detail_value lib Detail.AMBIENT_TEMPERATURE_C)))
        \<or>
        (target_temperature lib self =
           Inr (dict_get d (detail_value lib Detail.TARGET_TEMPERATURE_C)) \<and>
         target_temperature lib self' =
           Inr (dict_get d (detail_value lib Detail.TARGET_TEMPERATURE_F)) \<and>
         current_temperature lib self =
           Inr (dict_get d (detail_value lib Detail.AMBIENT_TEMPERATURE_C)) \<and>
         current_temperature lib self' =
           Inr (dict_get d (detail_value lib Detail.AMBIENT_TEMPERATURE_F)))"
    proof
      assume a: "dict_get d ?key = ?F \<and> dict_get d' ?key = ?C"
      with F [OF assms] C [of self' d'] h eq keys show ?thesis by simp
    next
      assume a: "dict_get d ?key = ?C \<and> dict_get d' ?key = ?F"
      with C [OF assms] F [of self' d'] h eq keys show ?thesis by simp
    qed
  qed (use F [OF assms] C [OF assms] K in simp_all)
qed

theorem temperature_fields_witness:
  "details (example_entity accepting example_details) = Some example_details \<and>
   target_temperature example_library (example_entity accepting example_details) =
     Inr (PInt 72) \<and>
   current_temperature example_library (example_entity accepting example_details) =
     Inr (PInt 75) \<and>
   target_temperature example_library (example_entity accepting
     (example_details(''temperatureRepresentation'' \<mapsto> PStr ''CELSIUS''))) = Inr (PInt 22) \<and>
   current_temperature example_library (example_entity accepting
     (example_details(''temperatureRepresentation'' \<mapsto> PStr ''CELSIUS''))) = Inr (PInt 24) \<and>
   target_temperature example_library (example_entity accepting foreign_details) =
     Inl KeyError"
proof -
  let ?L = example_library
  let ?key = "detail_value ?L Detail.TEMPERATURE_REPRESENTATION"
  let ?dc = "example_details(''temperatureRepresentation'' \<mapsto> PStr ''CELSIUS'')"
  let ?f = "example_entity accepting example_details"
  let ?c = "example_entity accepting ?dc"
  let ?k = "example_entity accepting foreign_details"
  have d: "details ?f = Some example_details" "details ?c = Some ?dc"
    "details ?k = Some foreign_details"
    by (simp_all add: example_entity_def)
  have u: "dict_get example_details ?key = PStr (unit_value ?L Unit.FAHRENHEIT)"
          "dict_get ?dc ?key = PStr (unit_value ?L Unit.CELSIUS)"
          "dict_get foreign_details ?key
             \<notin> {PStr (unit_value ?L Unit.FAHRENHEIT), PStr (unit_value ?L Unit.CELSIUS)}"
    by (simp_all add: dict_get_def example_details_def foreign_details_def
        example_library_values)
  have v: "dict_get example_details (detail_value ?L Detail.TARGET_TEMPERATURE_F) = PInt 72"
          "dict_get example_details (detail_value ?L Detail.AMBIENT_TEMPERATURE_F) = PInt 75"
          "dict_get example_details (detail_value ?L Detail.TARGET_TEMPERATURE_C) = PInt 22"
          "dict_get example_details (detail_value ?L Detail.AMBIENT_TEMPERATURE_C) = PInt 24"
    by (simp_all add: dict_get_def example_details_def example_library_values)
  have same: "\<forall>k. k \<noteq> ?key \<longrightarrow> ?dc k = example_details k"
    by (simp add: example_library_values)
  note T = temperature_fields [OF d(1), of ?L]
  note K = temperature_fields [OF d(3), of ?L]
  from T [THEN conjunct1] u(1)
  have F: "target_temperature ?L ?f =
             Inr (dict_get example_details (detail_value ?L Detail.TARGET_TEMPERATURE_F)) \<and>
           current_temperature ?L ?f =
             Inr (dict_get example_details (detail_value ?L Detail.AMBIENT_TEMPERATURE_F))"
    by (rule mp)
  have pre: "details ?c = Some ?dc \<and>
        (\<forall>k. k \<noteq> ?key \<longrightarrow> ?dc k = example_details k) \<and>
        dict_get ?dc ?key \<noteq> dict_get example_details ?key \<and>
        dict_get example_details ?key
          \<in> {PStr (unit_value ?L Unit.FAHRENHEIT), PStr (unit_value ?L Unit.CELSIUS)} \<and>
        dict_get ?dc ?key
          \<in> {PStr (unit_value ?L Unit.FAHRENHEIT), PStr (unit_value ?L Unit.CELSIUS)}"
    using d(2) same by (simp add: u(1,2))
  note two = T [THEN conjunct2, THEN conjunct2, THEN conjunct2, rule_format, OF pre]
  from K [THEN conjunct2, THEN conjunct2, THEN conjunct1] u(3)
  have KE: "target_temperature ?L ?k = Inl KeyError \<and> current_temperature ?L ?k = Inl KeyError"
    by (rule mp)
  from two F KE show ?thesis
    by (simp add: v d(1))
qed

text \<open>
  The claim as first stated has the Celsius field read whenever the unit is not
  Fahrenheit. With the unit field absent that fails: both accessors raise.
\<close>

theorem temperature_fields_counterexample:
  "dict_get (example_details(''temperatureRepresentation'' := None))
     (detail_value example_library Detail.TEMPERATURE_REPRESENTATION)
     \<noteq> PStr (unit_value example_library Unit.FAHRENHEIT) \<and>
   dict_get (example_details(''temperatureRepresentation'' := None))
     (detail_value example_library Detail.TARGET_TEMPERATURE_C) = PInt 22 \<and>
   target_temperature example_library (example_entity accepting
     (example_details(''temperatureRepresentation'' := None))) = Inl KeyError \<and>
   current_temperature example_library (example_entity accepting
     (example_details(''temperatureRepresentation'' := None))) = Inl KeyError"
  by (simp add: target_temperature_def current_temperature_def temperature_unit_def
      details_get_def dict_get_def subscript_def table_defs example_defs example_library_values)

subsection \<open>Switching off\<close>

text \<open>
  C2. Whatever the entity's state (details present or not, mode on or off), asking for
  the platform mode off sends the client exactly one call, \<^verbatim>\<open>set_power(OFF)\<close>: the
  calls received afterwards are the ones received before followed by that one call, so
  no \<^verbatim>\<open>set_mode\<close> call is made.
\<close>

theorem set_hvac_mode_off:
  "executed (client (snd (set_hvac_mode lib HVAC_MODE_OFF self))) =
     executed (client self) @ [(appliance self, Action.set_power Power.OFF)]"
  by (simp add: set_hvac_mode_def execute_action_executed)

subsection \<open>Switching on and changing mode\<close>

lemma turn_on_calls:
  assumes "target_temperature lib self = Inr t"
      and "fault (client self) (executed (client self)) (Action.set_power Power.ON) = None"
      and "fault (client self) (executed (client self) @ [(appliance self, Action.set_power Power.ON)])
             (Action.set_temperature t) = None"
  shows "turn_on lib self =
     (Inr (), self\<lparr>client := (client self)\<lparr>executed := executed (client self) @
        [(appliance self, Action.set_power Power.ON),
         (appliance self, Action.set_temperature t)]\<rparr>\<rparr>)"
proof -
  let ?s1 = "self\<lparr>client := (client self)\<lparr>executed :=
               executed (client self) @ [(appliance self, Action.set_power Power.ON)]\<rparr>\<rparr>"
  have 1: "execute_action (Action.set_power Power.ON) self = (Inr (), ?s1)"
    using assms(2) by (rule execute_action_accepted)
  have 2: "target_temperature lib ?s1 = Inr t"
    using assms(1) accessors_cong(2) [of ?s1 self lib] by simp
  have 3: "execute_action (Action.set_temperature t) ?s1 =
     (Inr (), ?s1\<lparr>client := (client ?s1)\<lparr>executed :=
        executed (client ?s1) @ [(appliance ?s1, Action.set_temperature t)]\<rparr>\<rparr>)"
    using assms(3) by (intro execute_action_accepted) simp
  show ?thesis
    by (simp add: turn_on_def 1 2 3)
qed

text \<open>
  C1, amended. Let the requested mode be cool, auto or fan_only, translated by the
  platform-to-remote mode table. When the mode in the details is not off, the client
  receives exactly one more call, \<^verbatim>\<open>set_mode\<close> with the translated mode. When the mode in
  the details is off, the target temperature can be read from the details (their unit is
  Fahrenheit or Celsius) and the service accepts the first two calls, the client receives
  exactly three more calls, in this order: \<^verbatim>\<open>set_power(ON)\<close>, \<^verbatim>\<open>set_temperature\<close> with
  the target temperature of the details as they were before the command, and
  \<^verbatim>\<open>set_mode\<close> with the translated mode.
\<close>

theorem set_hvac_mode_on:
  assumes "mode \<in> {HVAC_MODE_COOL, HVAC_MODE_AUTO, HVAC_MODE_FAN_ONLY}"
      and "HA_TO_FRIGIDAIRE_HVAC_MODE mode = Some frigidaire_mode"
      and "details self = Some d"
  shows
    "frigidaire_mode =
       (if mode = HVAC_MODE_COOL then Mode.COOL
        else if mode = HVAC_MODE_AUTO then Mode.ECO else Mode.FAN) \<and>
     (dict_get d (detail_value lib Detail.MODE) \<noteq> PStr (mode_value lib Mode.OFF) \<longrightarrow>
        executed (client (snd (set_hvac_mode lib mode self))) =
          executed (client self) @ [(appliance self, Action.set_mode frigidaire_mode)]) \<and>
     (\<forall>t. dict_get d (detail_value lib Detail.MODE) = PStr (mode_value lib Mode.OFF) \<and>
          target_temperature lib self = Inr t \<and>
          fault (client self) (executed (client self)) (Action.set_power Power.ON) = None \<and>
          fault (client self)
            (executed (client self) @ [(appliance self, Action.set_power Power.ON)])
            (Action.set_temperature t) = None \<longrightarrow>
        executed (client (snd (set_hvac_mode lib mode self))) =
          executed (client self) @
            [(appliance self, Action.set_power Power.ON),
             (appliance self, Action.set_temperature t),
             (appliance self, Action.set_mode frigidaire_mode)])"
proof -
  from assms(1) have noff: "mode \<noteq> HVAC_MODE_OFF"
    by (auto simp: platform_defs)
  have get: "details_get self (detail_value lib Detail.MODE) =
      Inr (dict_get d (detail_value lib Detail.MODE))"
    using assms(3) by (simp add: details_get_def)
  show ?thesis
  proof (intro conjI impI allI)
    show "frigidaire_mode =
       (if mode = HVAC_MODE_COOL then Mode.COOL
        else if mode = HVAC_MODE_AUTO then Mode.ECO else Mode.FAN)"
      using assms(1,2) by (auto simp: table_defs platform_defs)
  next
    assume "dict_get d (detail_value lib Detail.MODE) \<noteq> PStr (mode_value lib Mode.OFF)"
    then show "executed (client (snd (set_hvac_mode lib mode self))) =
          executed (client self) @ [(appliance self, Action.set_mode frigidaire_mode)]"
      using noff assms(2)
      by (simp add: set_hvac_mode_def get subscript_def execute_action_executed)
  next
    fix t
    assume h: "dict_get d (detail_value lib Detail.MODE) = PStr (mode_value lib Mode.OFF) \<and>
          target_temperature lib self = Inr t \<and>
          fault (client self) (executed (client self)) (Action.set_power Power.ON) = None \<and>
          fault (client self)
            (executed (client self) @ [(appliance self, Action.set_power Power.ON)])
            (Action.set_temperature t) = None"
    then have on: "turn_on lib self =
       (Inr (), self\<lparr>client := (client self)\<lparr>executed := executed (client self) @
          [(appliance self, Action.set_power Power.ON),
           (appliance self, Action.set_temperature t)]\<rparr>\<rparr>)"
      by (intro turn_on_calls) simp_all
    show "executed (client (snd (set_hvac_mode lib mode self))) =
          executed (client self) @
            [(appliance self, Action.set_power Power.ON),
             (appliance self, Action.set_temperature t),
             (appliance self, Action.set_mode frigidaire_mode)]"
      using noff assms(2) h
      by (simp add: set_hvac_mode_def get subscript_def on execute_action_executed)
  qed
qed

theorem set_hvac_mode_on_witness:
  "HVAC_MODE_COOL \<in> {HVAC_MODE_COOL, HVAC_MODE_AUTO, HVAC_MODE_FAN_ONLY} \<and>
   HA_TO_FRIGIDAIRE_HVAC_MODE HVAC_MODE_COOL = Some Mode.COOL \<and>
   target_temperature example_library (example_entity accepting example_details) =
     Inr (PInt 72) \<and>
   executed (client (snd (set_hvac_mode example_library HVAC_MODE_COOL
       (example_entity accepting example_details)))) =
     [(example_appliance, Action.set_power Power.ON),
      (example_appliance, Action.set_temperature (PInt 72)),
      (example_appliance, Action.set_mode Mode.COOL)] \<and>
   executed (client (snd (set_hvac_mode example_library HVAC_MODE_COOL
       (example_entity accepting (example_details(''mode'' \<mapsto> PStr ''FANONLY'')))))) =
     [(example_appliance, Action.set_mode Mode.COOL)]"
proof -
  let ?L = example_library
  let ?off = "example_entity accepting example_details"
  let ?don = "example_details(''mode'' \<mapsto> PStr ''FANONLY'')"
  let ?on = "example_entity accepting ?don"
  have m: "HVAC_MODE_COOL \<in> {HVAC_MODE_COOL, HVAC_MODE_AUTO, HVAC_MODE_FAN_ONLY}" by simp
  have tr: "HA_TO_FRIGIDAIRE_HVAC_MODE HVAC_MODE_COOL = Some Mode.COOL"
    by (simp add: table_defs platform_defs)
  have t: "target_temperature ?L ?off = Inr (PInt 72)"
    by (simp add: target_temperature_def temperature_unit_def details_get_def dict_get_def
        subscript_def table_defs example_defs example_library_values)
  have d: "details ?off = Some example_details" "details ?on = Some ?don"
    by (simp_all add: example_entity_def)
  have off: "dict_get example_details (detail_value ?L Detail.MODE) = PStr (mode_value ?L Mode.OFF)"
    and on: "dict_get ?don (detail_value ?L Detail.MODE) \<noteq> PStr (mode_value ?L Mode.OFF)"
    by (simp_all add: dict_get_def example_details_def example_library_values)
  have acc: "fault (client ?off) (executed (client ?off)) (Action.set_power Power.ON) = None"
    "fault (client ?off)
       (executed (client ?off) @ [(appliance ?off, Action.set_power Power.ON)])
       (Action.set_temperature (PInt 72)) = None"
    by (simp_all add: example_entity_def accepting_def)
  have e: "executed (client ?off) = []" "appliance ?off = example_appliance"
          "executed (client ?on) = []" "appliance ?on = example_appliance"
    by (simp_all add: example_entity_def)
  from set_hvac_mode_on [OF m tr d(1), of ?L, THEN conjunct2, THEN conjunct2, rule_format,
      of "PInt 72"] off t acc
  have three: "executed (client (snd (set_hvac_mode ?L HVAC_MODE_COOL ?off))) =
     executed (client ?off) @
       [(appliance ?off, Action.set_power Power.ON),
        (appliance ?off, Action.set_temperature (PInt 72)),
        (appliance ?off, Action.set_mode Mode.COOL)]"
    by simp
  from set_hvac_mode_on [OF m tr d(2), of ?L, THEN conjunct2, THEN conjunct1] on
  have one: "executed (client (snd (set_hvac_mode ?L HVAC_MODE_COOL ?on))) =
     executed (client ?on) @ [(appliance ?on, Action.set_mode Mode.COOL)]"
    by (rule mp)
  from m tr t three one show ?thesis
    by (simp only: e append_Nil simp_thms)
qed

text \<open>
  The claim as first stated promises the three calls whenever the mode in the details is
  off. With the unit field absent the appliance is powered on and then reading the target
  temperature raises \<^verbatim>\<open>KeyError\<close>; with a service that rejects the power-on call the
  exception leaves the command. Either way one call has been made, not three.
\<close>

theorem set_hvac_mode_on_counterexample:
  "details_get (example_entity accepting
       (example_details(''temperatureRepresentation'' := None)))
     (detail_value example_library Detail.MODE) =
     Inr (PStr (mode_value example_library Mode.OFF)) \<and>
   fst (set_hvac_mode example_library HVAC_MODE_COOL (example_entity accepting
       (example_details(''temperatureRepresentation'' := None)))) = Inl KeyError \<and>
   executed (client (snd (set_hvac_mode example_library HVAC_MODE_COOL
       (example_entity accepting
          (example_details(''temperatureRepresentation'' := None)))))) =
     [(example_appliance, Action.set_power Power.ON)] \<and>
   fst (set_hvac_mode example_library HVAC_MODE_COOL
       (example_entity rejecting example_details)) = Inl FrigidaireException \<and>
   executed (client (snd (set_hvac_mode example_library HVAC_MODE_COOL
       (example_entity rejecting example_details)))) =
     [(example_appliance, Action.set_power Power.ON)]"
  by (simp add: set_hvac_mode_def turn_on_def execute_action_def target_temperature_def
      temperature_unit_def details_get_def dict_get_def subscript_def table_defs platform_defs
      example_defs rejecting_def example_library_values)

subsection \<open>Fan mode\<close>



subsection \<open>Temperature\<close>

text \<open>\<open>py_int\<close> drops the fraction towards zero.\<close>

lemma py_int_truncates:
  "\<bar>t - real_of_int (py_int t)\<bar> < 1 \<and> \<bar>real_of_int (py_int t)\<bar> \<le> \<bar>t\<bar>"
  unfolding py_int_def by (auto; linarith)

text \<open>
  C6, amended. Without a temperature among the keyword arguments \<open>set_temperature\<close>
  returns normally and leaves the entity and its client unchanged. With a number \<open>t\<close>
  and details whose unit is Fahrenheit or Celsius, the client receives exactly one more
  call: \<^verbatim>\<open>set_temperature_f\<close> for Fahrenheit, \<^verbatim>\<open>set_temperature_c\<close> for Celsius, carrying
  \<open>t\<close> with its fraction dropped towards zero.
\<close>

theorem set_temperature_calls:
  "(kwargs ATTR_TEMPERATURE = None \<longrightarrow> set_temperature lib kwargs self = (Inr (), self)) \<and>
   (\<forall>t d. kwargs ATTR_TEMPERATURE = Some t \<and> details self = Some d \<longrightarrow>
      \<bar>t - real_of_int (py_int t)\<bar> < 1 \<and> \<bar>real_of_int (py_int t)\<bar> \<le> \<bar>t\<bar> \<and>
      (dict_get d (detail_value lib Detail.TEMPERATURE_REPRESENTATION)
         = PStr (unit_value lib Unit.FAHRENHEIT) \<longrightarrow>
         executed (client (snd (set_temperature lib kwargs self))) =
           executed (client self) @ [(appliance self, Action.set_temperature_f (py_int t))]) \<and>
      (dict_get d (detail_value lib Detail.TEMPERATURE_REPRESENTATION)
         = PStr (unit_value lib Unit.CELSIUS) \<longrightarrow>
         executed (client (snd (set_temperature lib kwargs self))) =
           executed (client self) @ [(appliance self, Action.set_temperature_c (py_int t))]))"
  using py_int_truncates
  by (auto simp: set_temperature_def temperature_unit_in_table subscript_def unit_table_member
      execute_action_executed Let_def)

theorem set_temperature_calls_witness:
  "set_temperature example_library Map.empty (example_entity accepting example_details) =
     (Inr (), example_entity accepting example_details) \<and>
   executed (client (snd (set_temperature example_library [ATTR_TEMPERATURE \<mapsto> 72.6]
       (example_entity accepting example_details)))) =
     [(example_appliance, Action.set_temperature_f 72)] \<and>
   executed (client (snd (set_temperature example_library [ATTR_TEMPERATURE \<mapsto> 22.5]
       (example_entity accepting
          (example_details(''temperatureRepresentation'' \<mapsto> PStr ''CELSIUS'')))))) =
     [(example_appliance, Action.set_temperature_c 22)]"
proof -
  let ?L = example_library
  let ?f = "example_entity accepting example_details"
  let ?dc = "example_details(''temperatureRepresentation'' \<mapsto> PStr ''CELSIUS'')"
  let ?c = "example_entity accepting ?dc"
  have none: "set_temperature ?L Map.empty ?f = (Inr (), ?f)"
    using set_temperature_calls [of Map.empty ?L ?f] by simp
  have hf: "[ATTR_TEMPERATURE \<mapsto> 72.6] ATTR_TEMPERATURE = Some (72.6::real) \<and>
            details ?f = Some example_details"
    by (simp add: example_entity_def)
  have uf: "dict_get example_details (detail_value ?L Detail.TEMPERATURE_REPRESENTATION) =
            PStr (unit_value ?L Unit.FAHRENHEIT)"
    by (simp add: dict_get_def example_details_def example_library_values)
  have hc: "[ATTR_TEMPERATURE \<mapsto> 22.5] ATTR_TEMPERATURE = Some (22.5::real) \<and>
            details ?c = Some ?dc"
    by (simp add: example_entity_def)
  have uc: "dict_get ?dc (detail_value ?L Detail.TEMPERATURE_REPRESENTATION) =
            PStr (unit_value ?L Unit.CELSIUS)"
    by (simp add: dict_get_def example_library_values)
  from set_temperature_calls [of "[ATTR_TEMPERATURE \<mapsto> 72.6]" ?L ?f, THEN conjunct2,
      rule_format, OF hf, THEN conjunct2, THEN conjunct2, THEN conjunct1] uf
  have f: "executed (client (snd (set_temperature ?L [ATTR_TEMPERATURE \<mapsto> 72.6] ?f))) =
           executed (client ?f) @ [(appliance ?f, Action.set_temperature_f (py_int 72.6))]"
    by (rule mp)
  from set_temperature_calls [of "[ATTR_TEMPERATURE \<mapsto> 22.5]" ?L ?c, THEN conjunct2,
      rule_format, OF hc, THEN conjunct2, THEN conjunct2, THEN conjunct2] uc
  have c: "executed (client (snd (set_temperature ?L [ATTR_TEMPERATURE \<mapsto> 22.5] ?c))) =
           executed (client ?c) @ [(appliance ?c, Action.set_temperature_c (py_int 22.5))]"
    by (rule mp)
  have v: "py_int 72.6 = 72" "py_int 22.5 = 22"
    by (simp_all add: py_int_def)
  have e: "executed (client ?f) = []" "appliance ?f = example_appliance"
          "executed (client ?c) = []" "appliance ?c = example_appliance"
    by (simp_all add: example_entity_def)
  show ?thesis
    using none f c by (simp only: v e append_Nil simp_thms)
qed

text \<open>
  The claim as first stated promises one call for every number. With the unit field
  absent the command raises \<^verbatim>\<open>KeyError\<close> before any call is made.
\<close>

theorem set_temperature_calls_counterexample:
  "set_temperature example_library [ATTR_TEMPERATURE \<mapsto> 72]
     (example_entity accepting
        (example_details(''temperatureRepresentation'' := None))) =
   (Inl KeyError,
    example_entity accepting
      (example_details(''temperatureRepresentation'' := None)))"
  by (simp add: set_temperature_def temperature_unit_def details_get_def dict_get_def
      subscript_def table_defs example_defs example_library_values)

subsection \<open>Polling\<close>

lemma update_failure:
  "update (Inl FrigidaireException) self =
     (Inr (),
      (if available self
       then self\<lparr>logged := logged self @ [LogError ''Failed to connect to Frigidaire servers'']\<rparr>
       else self)\<lparr>attr_available := False\<rparr>)"
  by (simp add: update_def Let_def)

lemma update_failure_fields:
  "details (snd (update (Inl FrigidaireException) self)) = details self"
  "client (snd (update (Inl FrigidaireException) self)) = client self"
  "appliance (snd (update (Inl FrigidaireException) self)) = appliance self"
  "attr_available (snd (update (Inl FrigidaireException) self)) = False"
  "logged (snd (update (Inl FrigidaireException) self)) =
     (if available self
      then logged self @ [LogError ''Failed to connect to Frigidaire servers'']
      else logged self)"
  by (simp_all add: update_failure)

lemma failed_polls_details: "details (failed_polls n self) = details self"
  by (induction n arbitrary: self) (simp_all add: update_failure_fields)

lemma failed_polls_unavailable: "\<not> available (failed_polls (Suc n) self)"
proof (induction n arbitrary: self)
  case 0
  show ?case by (simp add: available_def update_failure_fields)
next
  case (Suc n)
  show ?case using Suc [of "snd (update (Inl FrigidaireException) self)"] by simp
qed

lemma failed_polls_logged_unavailable:
  "\<not> available self \<Longrightarrow> logged (failed_polls n self) = logged self"
proof (induction n arbitrary: self)
  case 0
  show ?case by simp
next
  case (Suc n)
  have "\<not> available (snd (update (Inl FrigidaireException) self))"
    by (simp add: available_def update_failure_fields)
  from Suc.IH [OF this] Suc.prems show ?case
    by (simp add: update_failure_fields)
qed

text \<open>
  C3. A poll that raises \<^verbatim>\<open>FrigidaireException\<close> is caught: \<open>update\<close> returns normally.
  After any number of such polls in a row, at least one, the entity is unavailable. If it
  was available before the first of them, the log has gained the error record exactly
  once; if it was unavailable already, the log has gained nothing.
\<close>

theorem update_failure_logs_once:
  "fst (update (Inl FrigidaireException) self) = Inr () \<and>
   \<not> available (failed_polls (Suc n) self) \<and>
   (available self \<longrightarrow>
      logged (failed_polls (Suc n) self) =
        logged self @ [LogError ''Failed to connect to Frigidaire servers'']) \<and>
   (\<not> available self \<longrightarrow> logged (failed_polls (Suc n) self) = logged self)"
proof -
  let ?s1 = "snd (update (Inl FrigidaireException) self)"
  have u: "\<not> available ?s1"
    by (simp add: available_def update_failure_fields)
  have "logged (failed_polls (Suc n) self) = logged ?s1"
    using failed_polls_logged_unavailable [OF u, of n] by simp
  then have l: "logged (failed_polls (Suc n) self) =
     (if available self
      then logged self @ [LogError ''Failed to connect to Frigidaire servers'']
      else logged self)"
    by (simp only: update_failure_fields)
  have r: "fst (update (Inl FrigidaireException) self) = Inr ()"
    by (simp add: update_failure)
  show ?thesis
    using r l failed_polls_unavailable [of n self] by simp
qed

theorem update_failure_logs_once_witness:
  "available (example_entity accepting example_details) \<and>
   \<not> available (snd (update (Inl FrigidaireException) (example_entity accepting example_details))) \<and>
   \<not> available (snd (update (Inl FrigidaireException)
       (snd (update (Inl FrigidaireException) (example_entity accepting example_details))))) \<and>
   logged (snd (update (Inl FrigidaireException) (example_entity accepting example_details))) =
     [LogError ''Failed to connect to Frigidaire servers''] \<and>
   logged (snd (update (Inl FrigidaireException)
       (snd (update (Inl FrigidaireException) (example_entity accepting example_details))))) =
     [LogError ''Failed to connect to Frigidaire servers'']"
  using update_failure_logs_once [of "example_entity accepting example_details" 0]
        update_failure_logs_once [of "example_entity accepting example_details" "Suc 0"]
  by (simp add: available_def example_entity_def)

text \<open>
  C4. A poll that returns details stores them and sets the availability flag to whether
  the entry \<^verbatim>\<open>connectivityState\<close> of those details is the string \<^verbatim>\<open>connected\<close>: the entity
  is available afterwards if and only if it is. An absent entry, or any other value,
  leaves it unavailable.
\<close>

theorem update_success_available:
  "update (Inr d) self =
     (Inr (), self\<lparr>details := Some d,
                    attr_available := (d ''connectivityState'' = Some (PStr ''connected''))\<rparr>) \<and>
   available (snd (update (Inr d) self)) =
     (d ''connectivityState'' = Some (PStr ''connected''))"
  by (auto simp: update_def details_get_def dict_get_def available_def Let_def split: option.splits)

text \<open>
  C9. Polls that raise \<^verbatim>\<open>FrigidaireException\<close> leave the stored details as they were,
  however many follow one another: after a poll that returned details \<open>d\<close> they are still
  \<open>d\<close>, and every read accessor gives what it gave before the failed polls, although the
  entity is unavailable after the first of them.
\<close>

theorem update_failure_keeps_details:
  "details (failed_polls n (snd (update (Inr d) before))) = Some d \<and>
   \<not> available (failed_polls (Suc n) self) \<and>
   details (failed_polls n self) = details self \<and>
   temperature_unit lib (failed_polls n self) = temperature_unit lib self \<and>
   target_temperature lib (failed_polls n self) = target_temperature lib self \<and>
   current_temperature lib (failed_polls n self) = current_temperature lib self \<and>
   hvac_mode lib (failed_polls n self) = hvac_mode lib self \<and>
   fan_mode lib (failed_polls n self) = fan_mode lib self \<and>
   min_temp lib (failed_polls n self) = min_temp lib self \<and>
   max_temp lib (failed_polls n self) = max_temp lib self \<and>
   extra_state_attributes lib (failed_polls n self) = extra_state_attributes lib self"
proof -
  have "details (snd (update (Inr d) before)) = Some d"
    by (simp add: update_def details_get_def Let_def)
  then have last: "details (failed_polls n (snd (update (Inr d) before))) = Some d"
    by (simp add: failed_polls_details)
  show ?thesis
    using last failed_polls_unavailable [of n self]
      accessors_cong [OF failed_polls_details [of n self], of lib]
      failed_polls_details [of n self]
    by simp
qed

end
